theory Spec2Isabelle
  imports Main
begin

section \<open>Conversation memory of smart\_pdf\_renamer (AIConversation.py)\<close>

text \<open>
  A shallow embedding of the classes \<open>AIMessageContent\<close>, \<open>AIMessage\<close> and
  \<open>AIConversation\<close>. Python objects are records, mutation is explicit state passing,
  and every \<open>raise\<close> is a value of the type \<open>error\<close>. Two collaborators of the code are
  parameters of the model: the tokenizer (\<open>tiktoken\<close>, a function from a text to its number
  of tokens) and the file system read by the image branch of \<open>set_content\<close> (a function
  from a path to the base64 text of the file, \<open>None\<close> when \<open>open\<close> raises \<open>OSError\<close>).
\<close>

subsection \<open>Constants\<close>

named_theorems aic_consts \<open>the string constants of AIConversation.py\<close>

definition AIC_TYPE_TEXT :: string where
  [aic_consts]: "AIC_TYPE_TEXT = ''text''"

definition AIC_TYPE_IMAGE_URL :: string where
  [aic_consts]: "AIC_TYPE_IMAGE_URL = ''image_url''"

definition AIC_TYPE_FILE :: string where
  [aic_consts]: "AIC_TYPE_FILE = ''file''"

definition AIC_TYPE_INTERNAL :: string where
  [aic_consts]: "AIC_TYPE_INTERNAL = ''internal''"

definition AIC_ROLE_USER :: string where
  [aic_consts]: "AIC_ROLE_USER = ''user''"

definition AIC_ROLE_SYSTEM :: string where
  [aic_consts]: "AIC_ROLE_SYSTEM = ''system''"

definition AIC_ROLE_ASSISTANT :: string where
  [aic_consts]: "AIC_ROLE_ASSISTANT = ''assistant''"

definition AIC_ROLE_DEVELOPER :: string where
  [aic_consts]: "AIC_ROLE_DEVELOPER = ''developer''"

definition AIC_ROLE_INTERNAL :: string where
  [aic_consts]: "AIC_ROLE_INTERNAL = ''internal''"

definition AIC_DEFAULT_SYSTEM_PROMPT :: string where
  [aic_consts]: "AIC_DEFAULT_SYSTEM_PROMPT = ''You are an AI assistant trying to be useful''"

definition AIC_DEFAULT_MEMORY_SIZE :: int where
  [aic_consts]: "AIC_DEFAULT_MEMORY_SIZE = 8192"

definition AIC_COMMAND_NEWTOPIC :: string where
  [aic_consts]: "AIC_COMMAND_NEWTOPIC = ''newtopic''"

subsection \<open>Errors and Python helpers\<close>

datatype error = ValueError | IndexError | TypeError | AttributeError

type_synonym tokenizer = "string \<Rightarrow> int"
type_synonym file_reader = "string \<Rightarrow> string option"

text \<open>\<open>s.startswith(p)\<close>.\<close>

definition startswith :: "string \<Rightarrow> string \<Rightarrow> bool" where
  "startswith s p = (take (length p) s = p)"

text \<open>
  \<open>s.strip()\<close>, a character being a code point below 256: the characters Python's
  \<open>str.isspace\<close> accepts there are tab, line feed, vertical tab, form feed, carriage
  return, the four separators 28 to 31, the space, next line (133) and the no-break
  space (160).
\<close>

definition is_space :: "char \<Rightarrow> bool" where
  "is_space ch = ((of_char ch :: nat) \<in> {9, 10, 11, 12, 13, 28, 29, 30, 31, 32, 133, 160})"

definition strip :: "string \<Rightarrow> string" where
  "strip s = rev (dropWhile is_space (rev (dropWhile is_space s)))"

text \<open>
  \<open>xs[i]\<close> for a Python list: a negative index counts from the end, an index outside
  the list raises \<open>IndexError\<close>.
\<close>

definition py_index :: "'a list \<Rightarrow> int \<Rightarrow> error + 'a" where
  "py_index xs i =
     (if 0 \<le> i \<and> i < int (length xs) then Inr (xs ! nat i)
      else if i < 0 \<and> 0 \<le> int (length xs) + i then Inr (xs ! nat (int (length xs) + i))
      else Inl IndexError)"

subsection \<open>AIMessageContent\<close>

text \<open>The entries of the payload list \<open>__content\<close>; the text can be \<open>None\<close>.\<close>

datatype content_part =
    ImageUrlPart string
  | TextPart "string option"
  | FilePart string
  | InternalPart "string option"

record AIMessageContent =
  c_type :: string
  c_image_url :: "string option"
  c_text :: "string option"
  c_content :: "content_part list"

text \<open>
  \<open>AIMessageContent.set_content\<close>, called by \<open>__init__\<close> on the new object. The three
  fields are assigned first; the payload list depends on the type. In the image branch
  \<open>msg_image_url.startswith\<close> raises \<open>AttributeError\<close> on \<open>None\<close>; a local path is read
  and, when the read succeeds, \<open>__image_url\<close> becomes the data URI.
\<close>

definition AIMessageContent_init ::
    "file_reader \<Rightarrow> string \<Rightarrow> string option \<Rightarrow> string option \<Rightarrow> error + AIMessageContent" where
  "AIMessageContent_init rf msg_type msg_image_url msg_text =
     (let c = \<lparr> c_type = msg_type, c_image_url = msg_image_url, c_text = msg_text,
                 c_content = [] \<rparr>
      in if msg_type = AIC_TYPE_IMAGE_URL then
           (case msg_image_url of
              None \<Rightarrow> Inl AttributeError
            | Some url \<Rightarrow>
                if startswith url ''http'' then
                  Inr (c\<lparr> c_content := [ImageUrlPart url, TextPart msg_text] \<rparr>)
                else if startswith url ''data:image'' then
                  Inr (c\<lparr> c_content := [ImageUrlPart url, TextPart msg_text] \<rparr>)
                else
                  (case rf url of
                     Some encoded_image \<Rightarrow>
                       Inr (c\<lparr> c_image_url := Some (''data:image/jpeg;base64,'' @ encoded_image),
                               c_content := [ImageUrlPart (''data:image/jpeg;base64,'' @ encoded_image),
                                             TextPart msg_text] \<rparr>)
                   | None \<Rightarrow>
                       Inr (c\<lparr> c_content := [ImageUrlPart (''Error opening image file: '' @ url),
                                             TextPart msg_text] \<rparr>)))
         else if msg_type = AIC_TYPE_TEXT then
           Inr (c\<lparr> c_content := [TextPart msg_text] \<rparr>)
         else if msg_type = AIC_TYPE_FILE then
           Inr (c\<lparr> c_content := [FilePart ''This format is not supported yet''] \<rparr>)
         else if msg_type = AIC_TYPE_INTERNAL then
           Inr (c\<lparr> c_content := [InternalPart msg_text] \<rparr>)
         else Inl ValueError)"

subsection \<open>AIMessage\<close>

record AIMessage =
  m_role :: string
  m_content :: AIMessageContent
  m_sticky :: bool
  m_estimated_tokens :: int
  m_is_internal :: bool

text \<open>\<open>num_tokens_from_picture\<close>: the constant 765, whatever the image.\<close>

definition num_tokens_from_picture :: "string \<Rightarrow> int" where
  "num_tokens_from_picture encoded_image = 765"

text \<open>
  \<open>num_tokens_from_string\<close>: the length of the tokenizer's encoding. The encoder takes
  a string; on \<open>None\<close> it raises \<open>TypeError\<close>.
\<close>

definition num_tokens_from_string :: "tokenizer \<Rightarrow> string option \<Rightarrow> error + int" where
  "num_tokens_from_string tok the_string =
     (case the_string of None \<Rightarrow> Inl TypeError | Some s \<Rightarrow> Inr (tok s))"

text \<open>
  \<open>AIMessage.__init__(role, content_text, msg_type, content_image_url, sticky)\<close>: the
  role check, then one branch per message type, in the order of the source.
\<close>

definition AIMessage_init ::
    "tokenizer \<Rightarrow> file_reader \<Rightarrow> string \<Rightarrow> string option \<Rightarrow> string \<Rightarrow> string option \<Rightarrow> bool
       \<Rightarrow> error + AIMessage" where
  "AIMessage_init tok rf role content_text msg_type content_image_url sticky =
     (if role \<notin> set [AIC_ROLE_USER, AIC_ROLE_ASSISTANT, AIC_ROLE_SYSTEM, AIC_ROLE_DEVELOPER,
                      AIC_ROLE_INTERNAL]
      then Inl ValueError
      else if msg_type = AIC_TYPE_IMAGE_URL then
        (if content_image_url = None \<or> content_image_url = Some [] then Inl ValueError
         else
           (case AIMessageContent_init rf AIC_TYPE_IMAGE_URL content_image_url content_text of
              Inl e \<Rightarrow> Inl e
            | Inr c \<Rightarrow>
                (case num_tokens_from_string tok content_text of
                   Inl e \<Rightarrow> Inl e
                 | Inr n \<Rightarrow>
                     Inr \<lparr> m_role = role, m_content = c, m_sticky = sticky,
                           m_estimated_tokens = num_tokens_from_picture (the content_image_url) + n,
                           m_is_internal = False \<rparr>)))
      else if msg_type = AIC_TYPE_INTERNAL then
        (if content_text = None \<or> content_text = Some [] then Inl ValueError
         else
           (case AIMessageContent_init rf AIC_TYPE_INTERNAL None content_text of
              Inl e \<Rightarrow> Inl e
            | Inr c \<Rightarrow>
                Inr \<lparr> m_role = role, m_content = c, m_sticky = sticky,
                      m_estimated_tokens = 0, m_is_internal = True \<rparr>))
      else if msg_type = AIC_TYPE_TEXT then
        (if content_text = None \<or> content_text = Some [] then Inl ValueError
         else
           (case AIMessageContent_init rf AIC_TYPE_TEXT None content_text of
              Inl e \<Rightarrow> Inl e
            | Inr c \<Rightarrow>
                (case num_tokens_from_string tok content_text of
                   Inl e \<Rightarrow> Inl e
                 | Inr n \<Rightarrow>
                     Inr \<lparr> m_role = role, m_content = c, m_sticky = sticky,
                           m_estimated_tokens = n, m_is_internal = False \<rparr>)))
      else if msg_type = AIC_TYPE_FILE then Inl ValueError
      else Inl ValueError)"

definition get_estimated_tokens :: "AIMessage \<Rightarrow> int" where
  "get_estimated_tokens m = m_estimated_tokens m"

definition get_type :: "AIMessage \<Rightarrow> string" where
  "get_type m = c_type (m_content m)"

definition get_url :: "AIMessage \<Rightarrow> string option" where
  "get_url m = c_image_url (m_content m)"

definition get_text :: "AIMessage \<Rightarrow> string option" where
  "get_text m = c_text (m_content m)"

definition get_role :: "AIMessage \<Rightarrow> string" where
  "get_role m = m_role m"

definition is_sticky :: "AIMessage \<Rightarrow> bool" where
  "is_sticky m = m_sticky m"

definition is_internal :: "AIMessage \<Rightarrow> bool" where
  "is_internal m = m_is_internal m"

definition set_role :: "AIMessage \<Rightarrow> string \<Rightarrow> AIMessage" where
  "set_role m role = m\<lparr> m_role := role \<rparr>"

definition set_sticky :: "AIMessage \<Rightarrow> bool \<Rightarrow> AIMessage" where
  "set_sticky m sticky = m\<lparr> m_sticky := sticky \<rparr>"

definition set_content :: "AIMessage \<Rightarrow> AIMessageContent \<Rightarrow> AIMessage" where
  "set_content m content = m\<lparr> m_content := content \<rparr>"

text \<open>
  \<open>to_dict\<close> and \<open>from_dict\<close>. The dictionary has five keys. \<open>from_dict\<close> calls the
  constructor positionally with \<open>d['role'], d['msg_type'], d['content_text'],
  d['content_image_url'], d['sticky']\<close>, while the constructor's parameters are
  \<open>role, content_text, msg_type, content_image_url, sticky\<close>: the value under
  \<open>msg_type\<close> arrives as the text and the value under \<open>content_text\<close> as the type. A
  type that is \<open>None\<close> matches no branch, and building the message of the last
  \<open>raise\<close> (a string plus \<open>None\<close>) is a \<open>TypeError\<close>.
\<close>

record msg_dict =
  d_role :: string
  d_msg_type :: string
  d_content_text :: "string option"
  d_content_image_url :: "string option"
  d_sticky :: bool

definition to_dict :: "AIMessage \<Rightarrow> msg_dict" where
  "to_dict m = \<lparr> d_role = m_role m, d_msg_type = c_type (m_content m),
                 d_content_text = c_text (m_content m),
                 d_content_image_url = c_image_url (m_content m),
                 d_sticky = m_sticky m \<rparr>"

definition from_dict :: "tokenizer \<Rightarrow> file_reader \<Rightarrow> msg_dict \<Rightarrow> error + AIMessage" where
  "from_dict tok rf d =
     (case d_content_text d of
        None \<Rightarrow>
          (if d_role d \<notin> set [AIC_ROLE_USER, AIC_ROLE_ASSISTANT, AIC_ROLE_SYSTEM,
                               AIC_ROLE_DEVELOPER, AIC_ROLE_INTERNAL]
           then Inl ValueError else Inl TypeError)
      | Some t \<Rightarrow>
          AIMessage_init tok rf (d_role d) (Some (d_msg_type d)) t (d_content_image_url d)
            (d_sticky d))"

subsection \<open>AIConversation\<close>

record AIConversation =
  messages :: "AIMessage list"
  max_memory_messages :: int
  system_message_tokens :: int
  user_tokens :: int
  assistant_tokens :: int
  total_tokens :: int
  biggest_user_msg_tokens :: int
  biggest_assistant_msg_tokens :: int
  memory_user_tokens :: int
  memory_assistant_tokens :: int
  memory_total_tokens :: int

text \<open>
  A method that mutates the conversation returns the exception it raised, if any, and the
  conversation as the call leaves it: at every \<open>raise\<close> of the source the state returned
  is the state reached at that statement.
\<close>

type_synonym outcome = "error option \<times> AIConversation"

text \<open>
  \<open>AIConversation.__init__(system_message, max_memory)\<close>: the system message is the
  stripped argument, or the default prompt when the argument is \<open>None\<close> or blank; it is
  built with \<open>sticky = True\<close>.
\<close>

definition AIConversation_init ::
    "tokenizer \<Rightarrow> file_reader \<Rightarrow> string option \<Rightarrow> int \<Rightarrow> error + AIConversation" where
  "AIConversation_init tok rf system_message max_memory =
     (let the_system_msg =
            (case system_message of
               None \<Rightarrow> AIC_DEFAULT_SYSTEM_PROMPT
             | Some s \<Rightarrow> if length (strip s) > 0 then strip s else AIC_DEFAULT_SYSTEM_PROMPT)
      in case AIMessage_init tok rf AIC_ROLE_SYSTEM (Some the_system_msg) AIC_TYPE_TEXT None True of
           Inl e \<Rightarrow> Inl e
         | Inr m \<Rightarrow>
             Inr \<lparr> messages = [m], max_memory_messages = max_memory,
                   system_message_tokens = get_estimated_tokens m,
                   user_tokens = 0, assistant_tokens = 0,
                   total_tokens = get_estimated_tokens m,
                   biggest_user_msg_tokens = 0, biggest_assistant_msg_tokens = 0,
                   memory_user_tokens = 0, memory_assistant_tokens = 0,
                   memory_total_tokens = get_estimated_tokens m \<rparr>)"

definition change_system_message ::
    "tokenizer \<Rightarrow> file_reader \<Rightarrow> AIConversation \<Rightarrow> string option \<Rightarrow> outcome" where
  "change_system_message tok rf c new_system_message =
     (case AIMessage_init tok rf AIC_ROLE_SYSTEM new_system_message AIC_TYPE_TEXT None True of
        Inl e \<Rightarrow> (Some e, c)
      | Inr m \<Rightarrow>
          if length (messages c) = 0 then (None, c\<lparr> messages := messages c @ [m] \<rparr>)
          else (None, c\<lparr> messages := (messages c)[0 := m] \<rparr>))"

definition restart_internal :: "AIConversation \<Rightarrow> AIConversation" where
  "restart_internal c =
     c\<lparr> messages := [], system_message_tokens := 0, user_tokens := 0, assistant_tokens := 0,
        total_tokens := 0, memory_user_tokens := 0, memory_assistant_tokens := 0,
        memory_total_tokens := 0, biggest_user_msg_tokens := 0,
        biggest_assistant_msg_tokens := 0 \<rparr>"

text \<open>
  \<open>add_message\<close>, first half: where the new message goes and which token count is taken
  out (\<open>l_tokenstoremove\<close>). A system or developer message replaces index 0; otherwise,
  when the list is longer than \<open>max_memory_messages + 2\<close> and the role is not internal,
  the count is read at index \<open>-max_memory_messages - 1\<close> of the list before the append.
\<close>

definition add_message_place ::
    "AIConversation \<Rightarrow> string \<Rightarrow> AIMessage \<Rightarrow> error + (int \<times> AIConversation)" where
  "add_message_place c msg_role new_msg =
     (if msg_role \<in> set [AIC_ROLE_SYSTEM, AIC_ROLE_DEVELOPER] then
        (if length (messages c) \<ge> 1 then
           Inr (get_estimated_tokens (messages c ! 0), c\<lparr> messages := (messages c)[0 := new_msg] \<rparr>)
         else Inr (0, c\<lparr> messages := messages c @ [new_msg] \<rparr>))
      else if int (length (messages c)) > max_memory_messages c + 2
              \<and> msg_role \<notin> set [AIC_ROLE_INTERNAL] then
        (case py_index (messages c) (- max_memory_messages c - 1) of
           Inl e \<Rightarrow> Inl e
         | Inr m \<Rightarrow> Inr (get_estimated_tokens m, c))
      else Inr (0, c))"

text \<open>\<open>add_message\<close>, second half: the counters, one branch per role.\<close>

definition add_message_count ::
    "AIConversation \<Rightarrow> string \<Rightarrow> int \<Rightarrow> int \<Rightarrow> AIConversation" where
  "add_message_count c msg_role l_msg_tokens l_tokenstoremove =
     (if msg_role = AIC_ROLE_USER then
        c\<lparr> user_tokens := user_tokens c + (l_msg_tokens - l_tokenstoremove),
           total_tokens := total_tokens c + l_msg_tokens,
           memory_user_tokens := memory_user_tokens c + l_msg_tokens - l_tokenstoremove,
           memory_total_tokens := memory_total_tokens c + l_msg_tokens - l_tokenstoremove,
           biggest_user_msg_tokens :=
             (if l_msg_tokens > biggest_user_msg_tokens c then l_msg_tokens
              else biggest_user_msg_tokens c) \<rparr>
      else if msg_role = AIC_ROLE_ASSISTANT then
        c\<lparr> assistant_tokens := assistant_tokens c + (l_msg_tokens - l_tokenstoremove),
           total_tokens := total_tokens c + l_msg_tokens,
           memory_assistant_tokens := memory_assistant_tokens c + l_msg_tokens - l_tokenstoremove,
           memory_total_tokens := memory_total_tokens c + l_msg_tokens - l_tokenstoremove,
           biggest_assistant_msg_tokens :=
             (if l_msg_tokens > biggest_assistant_msg_tokens c then l_msg_tokens
              else biggest_assistant_msg_tokens c) \<rparr>
      else if msg_role = AIC_ROLE_SYSTEM then
        c\<lparr> system_message_tokens := l_msg_tokens,
           total_tokens := total_tokens c + l_msg_tokens - l_tokenstoremove,
           memory_total_tokens := memory_total_tokens c + l_msg_tokens - l_tokenstoremove \<rparr>
      else c)"

definition add_message ::
    "tokenizer \<Rightarrow> file_reader \<Rightarrow> AIConversation \<Rightarrow> string \<Rightarrow> string option \<Rightarrow> string
       \<Rightarrow> string option \<Rightarrow> bool \<Rightarrow> outcome" where
  "add_message tok rf c msg_role msg_text msg_type image_url is_sticky_arg =
     (if msg_role \<notin> set [AIC_ROLE_USER, AIC_ROLE_ASSISTANT, AIC_ROLE_SYSTEM, AIC_ROLE_INTERNAL,
                          AIC_ROLE_DEVELOPER]
      then (Some ValueError, c)
      else
        (case AIMessage_init tok rf msg_role msg_text msg_type image_url is_sticky_arg of
           Inl e \<Rightarrow> (Some e, c)
         | Inr new_msg \<Rightarrow>
             (case add_message_place c msg_role new_msg of
                Inl e \<Rightarrow> (Some e, c)
              | Inr (l_tokenstoremove, c1) \<Rightarrow>
                  (let c2 = (if msg_role \<in> set [AIC_ROLE_USER, AIC_ROLE_ASSISTANT, AIC_ROLE_INTERNAL]
                             then c1\<lparr> messages := messages c1 @ [new_msg] \<rparr> else c1)
                   in (None, add_message_count c2 msg_role (get_estimated_tokens new_msg)
                               l_tokenstoremove)))))"

text \<open>The defaults of the source: \<open>msg_type = "text"\<close>, no image, not sticky.\<close>

definition add_message_default ::
    "tokenizer \<Rightarrow> file_reader \<Rightarrow> AIConversation \<Rightarrow> string \<Rightarrow> string option \<Rightarrow> outcome" where
  "add_message_default tok rf c msg_role msg_text =
     add_message tok rf c msg_role msg_text AIC_TYPE_TEXT None False"

definition new_topic :: "tokenizer \<Rightarrow> file_reader \<Rightarrow> AIConversation \<Rightarrow> outcome" where
  "new_topic tok rf c =
     add_message tok rf c AIC_ROLE_INTERNAL (Some AIC_COMMAND_NEWTOPIC) AIC_TYPE_INTERNAL None False"

text \<open>
  \<open>get_memory_messages\<close>: the loop over \<open>reversed(self.__messages)\<close>. The test of the
  limit comes first and ends the iteration (\<open>continue\<close>); only below the limit is the
  message compared with the new-topic marker.
\<close>

fun memory_walk :: "int \<Rightarrow> AIMessage list \<Rightarrow> AIMessage list \<Rightarrow> AIMessage list \<times> bool" where
  "memory_walk M [] temp_memory_list = (temp_memory_list, False)"
| "memory_walk M (message # older) temp_memory_list =
     (if int (length temp_memory_list) \<ge> M then
        memory_walk M older
          (if is_sticky message then temp_memory_list @ [message] else temp_memory_list)
      else if get_role message = AIC_ROLE_INTERNAL \<and> get_text message = Some AIC_COMMAND_NEWTOPIC
        then (temp_memory_list, True)
      else memory_walk M older (temp_memory_list @ [message]))"

text \<open>
  The marker can only be found in a list that is not empty, so \<open>self.__messages[0]\<close>
  exists whenever it is read.
\<close>

definition get_memory_messages :: "AIConversation \<Rightarrow> AIMessage list" where
  "get_memory_messages c =
     (case memory_walk (max_memory_messages c) (rev (messages c)) [] of
        (temp_memory_list, new_topic_found) \<Rightarrow>
          rev (if new_topic_found then temp_memory_list @ take 1 (messages c)
               else temp_memory_list))"

definition count_non_sticky_messages :: "AIConversation \<Rightarrow> int" where
  "count_non_sticky_messages c = int (length (filter (\<lambda>m. \<not> is_sticky m) (messages c)))"

text \<open>
  \<open>recalculate_tokens\<close>: every counter but \<open>__system_message_tokens\<close> is set to zero,
  then one pass over the list, \<open>i\<close> counting from 1.
\<close>

fun recalculate_loop :: "nat \<Rightarrow> nat \<Rightarrow> AIMessage list \<Rightarrow> AIConversation \<Rightarrow> AIConversation" where
  "recalculate_loop len i [] c = c"
| "recalculate_loop len i (message # rest) c =
     (let l_msg_tokens = get_estimated_tokens message;
          in_memory = (int (Suc i) > int len - max_memory_messages c)
      in recalculate_loop len (Suc i) rest
        (if get_role message = AIC_ROLE_USER then
           c\<lparr> user_tokens := user_tokens c + l_msg_tokens,
              total_tokens := total_tokens c + l_msg_tokens,
              memory_user_tokens :=
                (if in_memory then memory_user_tokens c + l_msg_tokens else memory_user_tokens c),
              memory_total_tokens :=
                (if in_memory then memory_total_tokens c + l_msg_tokens else memory_total_tokens c),
              biggest_user_msg_tokens :=
                (if l_msg_tokens > biggest_user_msg_tokens c then l_msg_tokens
                 else biggest_user_msg_tokens c) \<rparr>
         else if get_role message = AIC_ROLE_ASSISTANT then
           c\<lparr> assistant_tokens := assistant_tokens c + l_msg_tokens,
              total_tokens := total_tokens c + l_msg_tokens,
              memory_assistant_tokens :=
                (if in_memory then memory_assistant_tokens c + l_msg_tokens
                 else memory_assistant_tokens c),
              memory_total_tokens :=
                (if in_memory then memory_total_tokens c + l_msg_tokens else memory_total_tokens c),
              biggest_assistant_msg_tokens :=
                (if l_msg_tokens > biggest_assistant_msg_tokens c then l_msg_tokens
                 else biggest_assistant_msg_tokens c) \<rparr>
         else if get_role message \<in> set [AIC_ROLE_SYSTEM, AIC_ROLE_DEVELOPER] then
           c\<lparr> system_message_tokens := l_msg_tokens,
              total_tokens := total_tokens c + l_msg_tokens,
              memory_total_tokens := memory_total_tokens c + l_msg_tokens \<rparr>
         else c))"

definition recalculate_tokens :: "AIConversation \<Rightarrow> AIConversation" where
  "recalculate_tokens c =
     recalculate_loop (length (messages c)) 0 (messages c)
       (c\<lparr> user_tokens := 0, assistant_tokens := 0, total_tokens := 0,
           memory_user_tokens := 0, memory_assistant_tokens := 0, memory_total_tokens := 0,
           biggest_user_msg_tokens := 0, biggest_assistant_msg_tokens := 0 \<rparr>)"

text \<open>
  \<open>remove_messages\<close> with \<open>remove_sticky = False\<close> runs two loops. The first goes over
  the indices \<open>len - 1, ..., 1\<close> and deletes the messages that are not sticky until
  \<open>msgs_to_remove\<close> of them are gone. The second runs \<open>msgs_to_remove\<close> times more and
  drops the last message while it is not sticky; \<open>self.__messages[-1]\<close> raises
  \<open>IndexError\<close> on an empty list.
\<close>

fun remove_loop :: "nat \<Rightarrow> AIMessage list \<Rightarrow> int \<Rightarrow> int \<Rightarrow> AIMessage list" where
  "remove_loop 0 msgs removed_count msgs_to_remove = msgs"
| "remove_loop (Suc j) msgs removed_count msgs_to_remove =
     (if \<not> is_sticky (msgs ! Suc j) then
        (if removed_count + 1 = msgs_to_remove then take (Suc j) msgs @ drop (Suc (Suc j)) msgs
         else remove_loop j (take (Suc j) msgs @ drop (Suc (Suc j)) msgs) (removed_count + 1)
                msgs_to_remove)
      else remove_loop j msgs removed_count msgs_to_remove)"

fun remove_tail_loop :: "nat \<Rightarrow> AIMessage list \<Rightarrow> error option \<times> AIMessage list" where
  "remove_tail_loop 0 msgs = (None, msgs)"
| "remove_tail_loop (Suc k) msgs =
     (case py_index msgs (- 1) of
        Inl e \<Rightarrow> (Some e, msgs)
      | Inr m \<Rightarrow> if \<not> is_sticky m then remove_tail_loop k (butlast msgs) else (None, msgs))"

definition remove_messages :: "AIConversation \<Rightarrow> int \<Rightarrow> bool \<Rightarrow> outcome" where
  "remove_messages c remove_n_messages remove_sticky =
     (if remove_n_messages < 0 then (Some ValueError, c)
      else
        (let msgs_to_remove = min remove_n_messages (int (length (messages c)) - 1)
         in if msgs_to_remove > 0 then
              (if remove_sticky then
                 (None, recalculate_tokens
                    (c\<lparr> messages := take (length (messages c) - nat msgs_to_remove) (messages c) \<rparr>))
               else
                 (let msgs_to_remove2 = min msgs_to_remove (count_non_sticky_messages c)
                  in case remove_tail_loop (nat msgs_to_remove2)
                            (remove_loop (length (messages c) - 1) (messages c) 0 msgs_to_remove2) of
                       (Some e, msgs) \<Rightarrow> (Some e, c\<lparr> messages := msgs \<rparr>)
                     | (None, msgs) \<Rightarrow> (None, recalculate_tokens (c\<lparr> messages := msgs \<rparr>))))
            else (None, c)))"

text \<open>\<open>restart\<close>: \<open>self.__messages = [self.__messages[0]]\<close>, and nothing else.\<close>

definition restart :: "AIConversation \<Rightarrow> outcome" where
  "restart c =
     (case py_index (messages c) 0 of
        Inl e \<Rightarrow> (Some e, c)
      | Inr m \<Rightarrow> (None, c\<lparr> messages := [m] \<rparr>))"

text \<open>Running one call after another: an exception ends the sequence.\<close>

fun run :: "AIConversation \<Rightarrow> (AIConversation \<Rightarrow> outcome) list \<Rightarrow> outcome" where
  "run c [] = (None, c)"
| "run c (f # fs) = (case f c of (None, c') \<Rightarrow> run c' fs | (Some e, c') \<Rightarrow> (Some e, c'))"

text \<open>
  A conversation built by the constructor and a sequence of calls; an exception anywhere
  leaves no conversation.
\<close>

definition build ::
    "tokenizer \<Rightarrow> file_reader \<Rightarrow> string option \<Rightarrow> int \<Rightarrow> (AIConversation \<Rightarrow> outcome) list
       \<Rightarrow> error + AIConversation" where
  "build tok rf system_message max_memory calls =
     (case AIConversation_init tok rf system_message max_memory of
        Inl e \<Rightarrow> Inl e
      | Inr c0 \<Rightarrow> (case run c0 calls of (None, c) \<Rightarrow> Inr c | (Some e, c) \<Rightarrow> Inl e))"

subsection \<open>Vocabulary of the statements\<close>

text \<open>The test \<open>get_memory_messages\<close> makes for the new-topic marker.\<close>

definition is_new_topic :: "AIMessage \<Rightarrow> bool" where
  "is_new_topic m = (get_role m = AIC_ROLE_INTERNAL \<and> get_text m = Some AIC_COMMAND_NEWTOPIC)"

text \<open>The objects the constructor returns for a text message and for an internal one.\<close>

definition text_msg :: "tokenizer \<Rightarrow> string \<Rightarrow> string \<Rightarrow> bool \<Rightarrow> AIMessage" where
  "text_msg tok role txt sticky =
     \<lparr> m_role = role,
       m_content = \<lparr> c_type = ''text'', c_image_url = None, c_text = Some txt,
                     c_content = [TextPart (Some txt)] \<rparr>,
       m_sticky = sticky, m_estimated_tokens = tok txt, m_is_internal = False \<rparr>"

definition internal_msg :: "string \<Rightarrow> string \<Rightarrow> bool \<Rightarrow> AIMessage" where
  "internal_msg role txt sticky =
     \<lparr> m_role = role,
       m_content = \<lparr> c_type = ''internal'', c_image_url = None, c_text = Some txt,
                     c_content = [InternalPart (Some txt)] \<rparr>,
       m_sticky = sticky, m_estimated_tokens = 0, m_is_internal = True \<rparr>"

text \<open>A concrete tokenizer (one token per character) and a file system with no files.\<close>

definition char_count :: tokenizer where
  "char_count s = int (length s)"

definition no_files :: file_reader where
  "no_files path = None"

section \<open>Evaluating the constructors and \<open>add_message\<close>\<close>

lemma AIMessage_init_text:
  "txt \<noteq> [] \<Longrightarrow> role \<in> set [''user'', ''assistant'', ''system'', ''developer'', ''internal''] \<Longrightarrow>
   AIMessage_init tok rf role (Some txt) ''text'' None st = Inr (text_msg tok role txt st)"
  by (simp add: AIMessage_init_def AIMessageContent_init_def num_tokens_from_string_def
        aic_consts text_msg_def Let_def)

lemma AIMessage_init_internal:
  "txt \<noteq> [] \<Longrightarrow> role \<in> set [''user'', ''assistant'', ''system'', ''developer'', ''internal''] \<Longrightarrow>
   AIMessage_init tok rf role (Some txt) ''internal'' None st = Inr (internal_msg role txt st)"
  by (simp add: AIMessage_init_def AIMessageContent_init_def num_tokens_from_string_def
        aic_consts internal_msg_def Let_def)

lemma text_msg_fields [simp]:
  "get_role (text_msg tok role txt st) = role"
  "get_text (text_msg tok role txt st) = Some txt"
  "get_type (text_msg tok role txt st) = ''text''"
  "is_sticky (text_msg tok role txt st) = st"
  "get_estimated_tokens (text_msg tok role txt st) = tok txt"
  by (simp_all add: text_msg_def get_role_def get_text_def get_type_def is_sticky_def
        get_estimated_tokens_def)

lemma internal_msg_fields [simp]:
  "get_role (internal_msg role txt st) = role"
  "get_text (internal_msg role txt st) = Some txt"
  "get_type (internal_msg role txt st) = ''internal''"
  "is_sticky (internal_msg role txt st) = st"
  "get_estimated_tokens (internal_msg role txt st) = 0"
  by (simp_all add: internal_msg_def get_role_def get_text_def get_type_def is_sticky_def
        get_estimated_tokens_def)

text \<open>The running maxima, written with \<open>max\<close> so that no case split is needed.\<close>

lemma if_greater_max: "(if (x::int) > y then x else y) = max y x"
  by simp

lemma init_default:
  "AIConversation_init tok rf None M = Inr
     \<lparr> messages = [text_msg tok ''system'' ''You are an AI assistant trying to be useful'' True],
       max_memory_messages = M,
       system_message_tokens = tok ''You are an AI assistant trying to be useful'',
       user_tokens = 0, assistant_tokens = 0,
       total_tokens = tok ''You are an AI assistant trying to be useful'',
       biggest_user_msg_tokens = 0, biggest_assistant_msg_tokens = 0,
       memory_user_tokens = 0, memory_assistant_tokens = 0,
       memory_total_tokens = tok ''You are an AI assistant trying to be useful'' \<rparr>"
  by (simp add: AIConversation_init_def AIMessage_init_text aic_consts)

lemmas eval_simps = build_def init_default add_message_def add_message_default_def new_topic_def
  AIMessage_init_text AIMessage_init_internal add_message_place_def add_message_count_def
  py_index_def if_greater_max aic_consts

section \<open>The memory window\<close>

text \<open>
  C3. With \<open>max_memory_messages = 2\<close>, after \<open>add_message\<close> of the system message S, the
  user message A, the sticky user message B, the assistant message C and the user message
  D, \<open>get_memory_messages\<close> returns exactly B, C, D in that order: S, installed by
  \<open>add_message\<close> with the default \<open>is_sticky = False\<close>, is left out, since the walk meets
  no new-topic marker.
\<close>

theorem get_memory_messages_scenario:
  "\<exists>c. build tok rf None 2
          [\<lambda>c. add_message_default tok rf c ''system'' (Some ''S''),
           \<lambda>c. add_message_default tok rf c ''user'' (Some ''A''),
           \<lambda>c. add_message tok rf c ''user'' (Some ''B'') ''text'' None True,
           \<lambda>c. add_message_default tok rf c ''assistant'' (Some ''C''),
           \<lambda>c. add_message_default tok rf c ''user'' (Some ''D'')] = Inr c
       \<and> get_memory_messages c =
           [text_msg tok ''user'' ''B'' True, text_msg tok ''assistant'' ''C'' False,
            text_msg tok ''user'' ''D'' False]"
  by (simp add: eval_simps get_memory_messages_def)

lemma memory_walk_plain:
  assumes "list_all (\<lambda>m. \<not> is_sticky m \<and> \<not> is_new_topic m) ms"
  shows "memory_walk M (ms @ older) temp =
         memory_walk M older (temp @ take (nat (M - int (length temp))) ms)"
  using assms
proof (induction ms arbitrary: temp)
  case Nil
  then show ?case by simp
next
  case (Cons m ms)
  show ?case
  proof (cases "int (length temp) \<ge> M")
    case True
    then have "nat (M - int (length temp)) = 0" by simp
    with True Cons show ?thesis by simp
  next
    case False
    then have n: "nat (M - int (length temp)) = Suc (nat (M - int (length (temp @ [m]))))"
      by simp
    from Cons.prems have m: "\<not> (get_role m = AIC_ROLE_INTERNAL \<and> get_text m = Some AIC_COMMAND_NEWTOPIC)"
      and ms: "list_all (\<lambda>m. \<not> is_sticky m \<and> \<not> is_new_topic m) ms"
      by (simp_all add: is_new_topic_def)
    have "memory_walk M ((m # ms) @ older) temp = memory_walk M (ms @ older) (temp @ [m])"
      using False m by auto
    also have "\<dots> = memory_walk M older ((temp @ [m]) @ take (nat (M - int (length (temp @ [m])))) ms)"
      by (rule Cons.IH [OF ms])
    finally show ?thesis by (simp only: n take_Suc_Cons append_assoc append_Cons append_Nil)
  qed
qed

text \<open>
  The window where the system message is pinned. In a conversation whose messages after
  index 0 are neither sticky nor new-topic markers, and whose message at index 0 is sticky
  (as the constructor and \<open>change_system_message\<close> build it) or whose
  \<open>max_memory_messages = M\<close> is larger than the number \<open>n\<close> of messages after index 0,
  \<open>get_memory_messages\<close> returns the message at index 0 followed by the last
  \<open>min(M, n)\<close> messages (none when \<open>M \<le> 0\<close>), in chronological order.
\<close>

theorem get_memory_messages_window:
  assumes msgs: "messages c = s # rest"
    and plain: "list_all (\<lambda>m. \<not> is_sticky m \<and> \<not> is_new_topic m) rest"
    and sys: "is_sticky s \<or> int (length rest) < max_memory_messages c"
  shows "get_memory_messages c =
           s # drop (length rest - nat (min (max_memory_messages c) (int (length rest)))) rest"
proof -
  define M where "M = max_memory_messages c"
  define t where "t = take (nat M) (rev rest)"
  have plain': "list_all (\<lambda>m. \<not> is_sticky m \<and> \<not> is_new_topic m) (rev rest)"
    using plain by (simp add: list_all_iff)
  have walk: "memory_walk M (rev (messages c)) [] = memory_walk M [s] t"
    using memory_walk_plain [OF plain', of M "[s]" "[]"] by (simp add: msgs t_def)
  have len: "int (length t) \<ge> M \<longleftrightarrow> M \<le> int (length rest)"
    by (auto simp: t_def)
  have last: "(case memory_walk M [s] t of
                 (temp, found) \<Rightarrow> rev (if found then temp @ take 1 (messages c) else temp))
              = s # rev t"
    using sys len by (auto simp: msgs M_def)
  have "rev t = drop (length rest - nat M) rest"
    by (simp add: t_def rev_take)
  moreover have "length rest - nat (min M (int (length rest))) = length rest - nat M"
    by auto
  ultimately show ?thesis
    using walk last by (simp add: get_memory_messages_def M_def)
qed

text \<open>The window theorem at the constructor's sticky system message and two user messages.\<close>

theorem get_memory_messages_window_witness:
  "\<exists>c. build char_count no_files None 1
          [\<lambda>c. add_message_default char_count no_files c ''user'' (Some ''A''),
           \<lambda>c. add_message_default char_count no_files c ''user'' (Some ''B'')] = Inr c
       \<and> list_all (\<lambda>m. \<not> is_sticky m \<and> \<not> is_new_topic m) (tl (messages c))
       \<and> is_sticky (hd (messages c))
       \<and> get_memory_messages c =
           [text_msg char_count ''system'' ''You are an AI assistant trying to be useful'' True,
            text_msg char_count ''user'' ''B'' False]"
proof -
  obtain c where b: "build char_count no_files None 1
          [\<lambda>c. add_message_default char_count no_files c ''user'' (Some ''A''),
           \<lambda>c. add_message_default char_count no_files c ''user'' (Some ''B'')] = Inr c"
    and m: "messages c =
              text_msg char_count ''system'' ''You are an AI assistant trying to be useful'' True
              # [text_msg char_count ''user'' ''A'' False, text_msg char_count ''user'' ''B'' False]"
    and M: "max_memory_messages c = 1"
    by (simp add: eval_simps)
  have plain: "list_all (\<lambda>m. \<not> is_sticky m \<and> \<not> is_new_topic m)
                 [text_msg char_count ''user'' ''A'' False, text_msg char_count ''user'' ''B'' False]"
    by (simp add: is_new_topic_def aic_consts)
  have sys: "is_sticky (text_msg char_count ''system'' ''You are an AI assistant trying to be useful'' True)
               \<or> int (length [text_msg char_count ''user'' ''A'' False, text_msg char_count ''user'' ''B'' False])
                  < max_memory_messages c"
    by simp
  from get_memory_messages_window [OF m plain sys] b m plain show ?thesis
    by (simp add: M)
qed

text \<open>
  C1 on the code. A system message installed by \<open>add_message\<close> with the defaults is not
  sticky, unlike the one the constructor and \<open>change_system_message\<close> install. With
  \<open>max_memory_messages = 1\<close>, the system message S and the user messages A and B, none
  of them sticky and none a marker, \<open>get_memory_messages\<close> returns B alone: the system
  message is missing from the window.
\<close>

theorem get_memory_messages_window_counterexample:
  "\<exists>c. build char_count no_files None 1
          [\<lambda>c. add_message_default char_count no_files c ''system'' (Some ''S''),
           \<lambda>c. add_message_default char_count no_files c ''user'' (Some ''A''),
           \<lambda>c. add_message_default char_count no_files c ''user'' (Some ''B'')] = Inr c
       \<and> list_all (\<lambda>m. \<not> is_sticky m \<and> \<not> is_new_topic m) (tl (messages c))
       \<and> hd (messages c) = text_msg char_count ''system'' ''S'' False
       \<and> get_memory_messages c = [text_msg char_count ''user'' ''B'' False]
       \<and> get_memory_messages c \<noteq>
           hd (messages c) #
           drop (length (tl (messages c))
                   - nat (min (max_memory_messages c) (int (length (tl (messages c))))))
             (tl (messages c))"
  by (simp add: eval_simps get_memory_messages_def is_new_topic_def)

text \<open>
  C2 on the code. With \<open>max_memory_messages = 1\<close>: a sticky user message A, then
  \<open>new_topic\<close>, then B and C. The walk collects C, the limit is reached, and from then on
  the test of the limit ends every iteration before the marker is looked at; the walk
  goes past the marker and collects the sticky A, which is older than the marker.
\<close>

theorem new_topic_boundary_passed:
  "\<exists>c. build tok rf None 1
          [\<lambda>c. add_message tok rf c ''user'' (Some ''A'') ''text'' None True,
           \<lambda>c. new_topic tok rf c,
           \<lambda>c. add_message_default tok rf c ''user'' (Some ''B''),
           \<lambda>c. add_message_default tok rf c ''assistant'' (Some ''C'')] = Inr c
       \<and> messages c =
           [text_msg tok ''system'' ''You are an AI assistant trying to be useful'' True,
            text_msg tok ''user'' ''A'' True,
            internal_msg ''internal'' ''newtopic'' False,
            text_msg tok ''user'' ''B'' False,
            text_msg tok ''assistant'' ''C'' False]
       \<and> get_memory_messages c =
           [text_msg tok ''system'' ''You are an AI assistant trying to be useful'' True,
            text_msg tok ''user'' ''A'' True,
            text_msg tok ''assistant'' ''C'' False]"
  by (simp add: eval_simps get_memory_messages_def)


section \<open>Serialization\<close>

text \<open>
  C4 on the code. The user text message "hello" is built, \<open>to_dict\<close> gives its five
  fields, and \<open>from_dict\<close> of that dictionary raises \<open>ValueError\<close>: "text" arrives as
  the content text and "hello" as the message type, which no branch accepts.
\<close>

theorem from_dict_swaps_arguments:
  "AIMessage_init tok rf ''user'' (Some ''hello'') ''text'' None False
     = Inr (text_msg tok ''user'' ''hello'' False)
   \<and> to_dict (text_msg tok ''user'' ''hello'' False)
     = \<lparr> d_role = ''user'', d_msg_type = ''text'', d_content_text = Some ''hello'',
         d_content_image_url = None, d_sticky = False \<rparr>
   \<and> from_dict tok rf (to_dict (text_msg tok ''user'' ''hello'' False)) = Inl ValueError"
  by (simp add: AIMessage_init_text)
     (simp add: to_dict_def from_dict_def text_msg_def AIMessage_init_def aic_consts)

section \<open>Token counters\<close>

text \<open>
  C5 on the code. After \<open>add_message\<close> of a user message and \<open>restart\<close>, only the system
  message is left, \<open>user_tokens\<close> still counts the removed message, and a rescan gives 0.
  After two user messages with \<open>max_memory_messages = 1\<close>, \<open>memory_user_tokens\<close> counts
  both, and a rescan counts the last one only.
\<close>

theorem counters_differ_from_rescan:
  "(\<exists>c. build tok rf None 1
           [\<lambda>c. add_message_default tok rf c ''user'' (Some ''A''),
            \<lambda>c. restart c] = Inr c
        \<and> messages c = [text_msg tok ''system'' ''You are an AI assistant trying to be useful'' True]
        \<and> user_tokens c = tok ''A''
        \<and> user_tokens (recalculate_tokens c) = 0)
   \<and> (\<exists>c. build tok rf None 1
           [\<lambda>c. add_message_default tok rf c ''user'' (Some ''A''),
            \<lambda>c. add_message_default tok rf c ''user'' (Some ''B'')] = Inr c
        \<and> memory_user_tokens c = tok ''A'' + tok ''B''
        \<and> memory_user_tokens (recalculate_tokens c) = tok ''B'')"
  by (simp add: eval_simps restart_def recalculate_tokens_def Let_def)

text \<open>
  C6 on the code. With \<open>max_memory_messages = 1\<close> and the list [system, A, B, C], the
  list is longer than \<open>max_memory_messages + 2\<close>; appending the user message D reads
  the token count of the message at index \<open>-2\<close>, B, and takes it out of
  \<open>memory_user_tokens\<close> and of the all-time \<open>user_tokens\<close> as well, while
  \<open>total_tokens\<close> only grows.
\<close>

theorem eviction_reduces_user_tokens:
  "\<exists>c c'. build tok rf None 1
           [\<lambda>c. add_message_default tok rf c ''user'' (Some ''A''),
            \<lambda>c. add_message_default tok rf c ''user'' (Some ''B''),
            \<lambda>c. add_message_default tok rf c ''user'' (Some ''C'')] = Inr c
        \<and> add_message_default tok rf c ''user'' (Some ''D'') = (None, c')
        \<and> user_tokens c = tok ''A'' + tok ''B'' + tok ''C''
        \<and> user_tokens c' = tok ''A'' + tok ''C'' + tok ''D''
        \<and> total_tokens c' = total_tokens c + tok ''D''
        \<and> memory_user_tokens c' = memory_user_tokens c + tok ''D'' - tok ''B''"
  by (simp add: eval_simps)

section \<open>Removal\<close>

text \<open>
  C7 on the code. \<open>remove_messages(2, False)\<close> on the system message and four user
  messages, none of them sticky but the first, leaves the system message alone: the first
  loop deletes D and C, the second B and A. And \<open>remove_messages(1, False)\<close> on a system
  message installed by \<open>add_message\<close> (not sticky) and one user message leaves the
  list empty: the second loop drops the system message.
\<close>

theorem remove_messages_removes_more:
  "(\<exists>c c'. build tok rf None 8192
           [\<lambda>c. add_message_default tok rf c ''user'' (Some ''A''),
            \<lambda>c. add_message_default tok rf c ''user'' (Some ''B''),
            \<lambda>c. add_message_default tok rf c ''user'' (Some ''C''),
            \<lambda>c. add_message_default tok rf c ''user'' (Some ''D'')] = Inr c
        \<and> length (messages c) = 5
        \<and> remove_messages c 2 False = (None, c')
        \<and> messages c' = [text_msg tok ''system'' ''You are an AI assistant trying to be useful'' True])
   \<and> (\<exists>c c'. build tok rf None 8192
           [\<lambda>c. add_message_default tok rf c ''system'' (Some ''S''),
            \<lambda>c. add_message_default tok rf c ''user'' (Some ''A'')] = Inr c
        \<and> messages c = [text_msg tok ''system'' ''S'' False, text_msg tok ''user'' ''A'' False]
        \<and> remove_messages c 1 False = (None, c')
        \<and> messages c' = [])"
  by (simp add: eval_simps remove_messages_def count_non_sticky_messages_def
        recalculate_tokens_def Let_def eval_nat_numeral)


section \<open>Messages\<close>

lemma AIMessageContent_init_type:
  "AIMessageContent_init rf msg_type url txt = Inr c \<Longrightarrow> c_type c = msg_type"
  by (auto simp: AIMessageContent_init_def Let_def split: if_splits option.splits)

lemma AIMessage_init_fields:
  assumes "AIMessage_init tok rf role content_text msg_type content_image_url sticky = Inr m"
  shows "get_role m = role \<and> is_sticky m = sticky \<and> get_type m = msg_type"
  using assms unfolding AIMessage_init_def get_role_def is_sticky_def get_type_def
  by (auto split: if_splits sum.splits dest: AIMessageContent_init_type)

lemma AIMessage_init_tokens:
  assumes "AIMessage_init tok rf role content_text msg_type content_image_url sticky = Inr m"
  shows "msg_type = AIC_TYPE_TEXT
            \<and> (\<exists>t. content_text = Some t \<and> get_estimated_tokens m = tok t)
          \<or> msg_type = AIC_TYPE_IMAGE_URL
            \<and> (\<exists>t. content_text = Some t \<and> get_estimated_tokens m = 765 + tok t)
          \<or> msg_type = AIC_TYPE_INTERNAL \<and> get_estimated_tokens m = 0"
  using assms
  unfolding AIMessage_init_def num_tokens_from_string_def num_tokens_from_picture_def
    get_estimated_tokens_def
  by (auto split: if_splits sum.splits option.splits)

text \<open>
  C8, as amended. For every message the constructor returns, the type is text, image or
  internal, and \<open>estimated_tokens\<close> is the tokenizer's count of the text for a text
  message, 765 plus the tokenizer's count of the caption text for an image message, and 0
  for an internal message; \<open>set_role\<close>, \<open>set_sticky\<close> and \<open>set_content\<close> leave it as
  it is.
\<close>

theorem estimated_tokens_at_construction:
  assumes "AIMessage_init tok rf role content_text msg_type content_image_url sticky = Inr m"
  shows "(msg_type = AIC_TYPE_TEXT
            \<and> (\<exists>t. content_text = Some t \<and> get_estimated_tokens m = tok t)
          \<or> msg_type = AIC_TYPE_IMAGE_URL
            \<and> (\<exists>t. content_text = Some t \<and> get_estimated_tokens m = 765 + tok t)
          \<or> msg_type = AIC_TYPE_INTERNAL \<and> get_estimated_tokens m = 0)
         \<and> get_type m = msg_type
         \<and> get_estimated_tokens (set_role m r) = get_estimated_tokens m
         \<and> get_estimated_tokens (set_sticky m b) = get_estimated_tokens m
         \<and> get_estimated_tokens (set_content m content) = get_estimated_tokens m"
proof -
  have "get_type m = msg_type"
    using AIMessage_init_fields [OF assms] by simp
  moreover have "get_estimated_tokens (set_role m r) = get_estimated_tokens m"
    "get_estimated_tokens (set_sticky m b) = get_estimated_tokens m"
    "get_estimated_tokens (set_content m content) = get_estimated_tokens m"
    by (simp_all add: get_estimated_tokens_def set_role_def set_sticky_def set_content_def)
  ultimately show ?thesis
    using AIMessage_init_tokens [OF assms] by blast
qed

lemma image_message_http:
  "AIMessage_init tok rf ''user'' (Some ''hi'') ''image_url'' (Some ''http://x'') st =
     Inr \<lparr> m_role = ''user'',
           m_content = \<lparr> c_type = ''image_url'', c_image_url = Some ''http://x'',
                         c_text = Some ''hi'',
                         c_content = [ImageUrlPart ''http://x'', TextPart (Some ''hi'')] \<rparr>,
           m_sticky = st, m_estimated_tokens = 765 + tok ''hi'', m_is_internal = False \<rparr>"
  by (simp add: AIMessage_init_def AIMessageContent_init_def num_tokens_from_string_def
        num_tokens_from_picture_def startswith_def aic_consts Let_def)

text \<open>
  The theorem at an image message with the caption "hi".
\<close>

theorem estimated_tokens_at_construction_witness:
  "\<exists>m. AIMessage_init char_count no_files ''user'' (Some ''hi'') ''image_url'' (Some ''http://x'') True = Inr m
       \<and> get_type m = ''image_url''
       \<and> get_estimated_tokens m = 765 + char_count ''hi''
       \<and> get_estimated_tokens (set_sticky m False) = get_estimated_tokens m"
proof -
  obtain m where m: "AIMessage_init char_count no_files ''user'' (Some ''hi'') ''image_url''
                       (Some ''http://x'') True = Inr m"
    by (simp add: image_message_http)
  from estimated_tokens_at_construction [OF m, of "''system''" False] m show ?thesis
    by (auto simp: aic_consts)
qed

text \<open>
  C8 as stated fails for an image message with a caption: with one token per character
  the image message with the caption "hi" has 767 estimated tokens, not 765.
\<close>

theorem image_tokens_counterexample:
  "\<exists>m. AIMessage_init char_count no_files ''user'' (Some ''hi'') ''image_url'' (Some ''http://x'') False = Inr m
       \<and> get_type m = ''image_url''
       \<and> get_estimated_tokens m = 767
       \<and> get_estimated_tokens m \<noteq> 765"
  by (simp add: image_message_http char_count_def get_type_def get_estimated_tokens_def)

section \<open>Errors\<close>

text \<open>
  C9. Whenever \<open>add_message\<close> raises, the conversation it leaves is the conversation it
  was called on: the message list and every counter are as before. This covers the
  validation errors (role, message type, missing text or image URL) and any other
  exception of the call.
\<close>

theorem add_message_error_leaves_state:
  assumes "fst (add_message tok rf c msg_role msg_text msg_type image_url sticky) = Some e"
  shows "snd (add_message tok rf c msg_role msg_text msg_type image_url sticky) = c"
proof (cases "msg_role \<notin> set [AIC_ROLE_USER, AIC_ROLE_ASSISTANT, AIC_ROLE_SYSTEM,
                                 AIC_ROLE_INTERNAL, AIC_ROLE_DEVELOPER]")
  case True
  then show ?thesis by (simp add: add_message_def split del: if_split)
next
  case valid: False
  show ?thesis
  proof (cases "AIMessage_init tok rf msg_role msg_text msg_type image_url sticky")
    case (Inl err)
    with valid show ?thesis by (simp add: add_message_def split del: if_split)
  next
    case (Inr new_msg)
    show ?thesis
    proof (cases "add_message_place c msg_role new_msg")
      case (Inl err)
      with valid Inr show ?thesis by (simp add: add_message_def split del: if_split)
    next
      case placed: (Inr p)
      obtain l c1 where p: "p = (l, c1)" by (cases p)
      have "fst (add_message tok rf c msg_role msg_text msg_type image_url sticky) = None"
        using valid Inr placed p by (simp add: add_message_def Let_def split del: if_split)
      with assms show ?thesis by simp
    qed
  qed
qed

text \<open>
  The theorem at an invalid role, at an empty text and at the unsupported type "file".
\<close>

theorem add_message_error_leaves_state_witness:
  "\<exists>c. build char_count no_files None 2
          [\<lambda>c. add_message_default char_count no_files c ''user'' (Some ''A'')] = Inr c
       \<and> fst (add_message char_count no_files c ''robot'' (Some ''x'') ''text'' None False)
           = Some ValueError
       \<and> snd (add_message char_count no_files c ''robot'' (Some ''x'') ''text'' None False) = c
       \<and> fst (add_message char_count no_files c ''user'' (Some []) ''text'' None False)
           = Some ValueError
       \<and> snd (add_message char_count no_files c ''user'' (Some []) ''text'' None False) = c
       \<and> fst (add_message char_count no_files c ''user'' (Some ''x'') ''file'' None False)
           = Some ValueError
       \<and> snd (add_message char_count no_files c ''user'' (Some ''x'') ''file'' None False) = c"
proof -
  obtain c where b: "build char_count no_files None 2
          [\<lambda>c. add_message_default char_count no_files c ''user'' (Some ''A'')] = Inr c"
    by (simp add: eval_simps)
  have role: "fst (add_message char_count no_files c ''robot'' (Some ''x'') ''text'' None False)
                = Some ValueError"
    by (simp add: add_message_def aic_consts)
  have payload: "fst (add_message char_count no_files c ''user'' (Some []) ''text'' None False)
                = Some ValueError"
    by (simp add: add_message_def AIMessage_init_def aic_consts)
  have type: "fst (add_message char_count no_files c ''user'' (Some ''x'') ''file'' None False)
                = Some ValueError"
    by (simp add: add_message_def AIMessage_init_def aic_consts)
  from b role payload type
    add_message_error_leaves_state [OF role]
    add_message_error_leaves_state [OF payload]
    add_message_error_leaves_state [OF type]
  show ?thesis by blast
qed

section \<open>The system message\<close>

lemma AIConversation_init_messages:
  "\<exists>c the_msg. AIConversation_init tok rf system_message max_memory = Inr c
       \<and> messages c = [text_msg tok ''system'' the_msg True]"
proof -
  define the_msg where "the_msg =
            (case system_message of
               None \<Rightarrow> AIC_DEFAULT_SYSTEM_PROMPT
             | Some s \<Rightarrow> if length (strip s) > 0 then strip s else AIC_DEFAULT_SYSTEM_PROMPT)"
  have "the_msg \<noteq> []"
    by (auto simp: the_msg_def aic_consts split: option.splits)
  then have "AIMessage_init tok rf AIC_ROLE_SYSTEM (Some the_msg) AIC_TYPE_TEXT None True
               = Inr (text_msg tok ''system'' the_msg True)"
    using AIMessage_init_text [of the_msg "''system''" tok rf True]
    by (simp add: AIC_ROLE_SYSTEM_def AIC_TYPE_TEXT_def)
  then show ?thesis
    unfolding AIConversation_init_def Let_def the_msg_def [symmetric] by auto
qed

lemma change_system_message_messages:
  assumes "change_system_message tok rf c new_system_message = (None, c')"
  shows "\<exists>m rest. messages c' = m # rest \<and> get_role m = AIC_ROLE_SYSTEM
            \<and> get_type m = AIC_TYPE_TEXT \<and> is_sticky m"
proof (cases "AIMessage_init tok rf AIC_ROLE_SYSTEM new_system_message AIC_TYPE_TEXT None True")
  case (Inl err)
  with assms show ?thesis by (simp add: change_system_message_def)
next
  case (Inr m)
  from AIMessage_init_fields [OF Inr]
  have m: "get_role m = AIC_ROLE_SYSTEM \<and> get_type m = AIC_TYPE_TEXT \<and> is_sticky m"
    by simp
  show ?thesis
  proof (cases "messages c")
    case Nil
    with assms Inr have "messages c' = [m]"
      by (auto simp: change_system_message_def)
    with m show ?thesis by simp
  next
    case (Cons old rest)
    with assms Inr have "messages c' = m # rest"
      by (auto simp: change_system_message_def)
    with m show ?thesis by simp
  qed
qed

lemma messages_add_message_count [simp]:
  "messages (add_message_count c msg_role a b) = messages c"
  by (simp add: add_message_count_def)

lemma add_message_system_messages:
  assumes role: "msg_role \<in> set [AIC_ROLE_SYSTEM, AIC_ROLE_DEVELOPER]"
    and ok: "add_message tok rf c msg_role msg_text msg_type image_url sticky = (None, c')"
  shows "\<exists>m rest. messages c' = m # rest \<and> get_role m = msg_role \<and> is_sticky m = sticky"
proof (cases "AIMessage_init tok rf msg_role msg_text msg_type image_url sticky")
  case (Inl err)
  with ok show ?thesis
    by (simp add: add_message_def split: if_splits)
next
  case (Inr new_msg)
  from AIMessage_init_fields [OF Inr]
  have m: "get_role new_msg = msg_role \<and> is_sticky new_msg = sticky"
    by simp
  from role have valid: "msg_role \<in> set [AIC_ROLE_USER, AIC_ROLE_ASSISTANT, AIC_ROLE_SYSTEM,
      AIC_ROLE_INTERNAL, AIC_ROLE_DEVELOPER]"
    and tail: "msg_role \<notin> set [AIC_ROLE_USER, AIC_ROLE_ASSISTANT, AIC_ROLE_INTERNAL]"
    by (auto simp: aic_consts)
  have place: "add_message_place c msg_role new_msg =
      (if length (messages c) \<ge> 1
       then Inr (get_estimated_tokens (messages c ! 0), c\<lparr> messages := (messages c)[0 := new_msg] \<rparr>)
       else Inr (0, c\<lparr> messages := messages c @ [new_msg] \<rparr>))"
    using role unfolding add_message_place_def by (simp only: if_True)
  show ?thesis
  proof (cases "messages c")
    case Nil
    with place have "add_message_place c msg_role new_msg
        = Inr (0, c\<lparr> messages := [new_msg] \<rparr>)"
      by simp
    with ok Inr valid tail have "messages c' = [new_msg]"
      by (auto simp: add_message_def Let_def simp del: set_simps)
    with m show ?thesis by simp
  next
    case (Cons old rest)
    with place have "add_message_place c msg_role new_msg
        = Inr (get_estimated_tokens old, c\<lparr> messages := new_msg # rest \<rparr>)"
      by simp
    with ok Inr valid tail have "messages c' = new_msg # rest"
      by (auto simp: add_message_def Let_def simp del: set_simps)
    with m show ?thesis by simp
  qed
qed

lemma add_message_system_text_ok:
  assumes "the_text \<noteq> []" and "msg_role = ''system'' \<or> msg_role = ''developer''"
  shows "fst (add_message tok rf c msg_role (Some the_text) ''text'' None sticky) = None"
  using assms
  by (auto simp: add_message_def AIMessage_init_text add_message_place_def Let_def aic_consts)

lemma change_system_message_ok:
  assumes "the_text \<noteq> []"
  shows "fst (change_system_message tok rf c (Some the_text)) = None"
  using assms AIMessage_init_text [of the_text "''system''" tok rf True]
  by (simp add: change_system_message_def aic_consts)

text \<open>
  C10. The constructor returns a conversation whose only message is a system text message
  with the sticky flag set; after a \<open>change_system_message\<close> that returns, index 0 holds
  a system text message with the sticky flag set; an \<open>add_message\<close> with role system or
  developer that returns leaves at index 0 a message of that role with the sticky flag the
  caller gave, which is \<open>False\<close> under the defaults.
\<close>

theorem system_message_sticky_flag:
  "(\<exists>c0 m. AIConversation_init tok rf system_message max_memory = Inr c0 \<and> messages c0 = [m]
       \<and> get_role m = AIC_ROLE_SYSTEM \<and> get_type m = AIC_TYPE_TEXT \<and> is_sticky m)
   \<and> (change_system_message tok rf c new_system_message = (None, c1) \<longrightarrow>
        (\<exists>m rest. messages c1 = m # rest
           \<and> get_role m = AIC_ROLE_SYSTEM \<and> get_type m = AIC_TYPE_TEXT \<and> is_sticky m))
   \<and> (msg_role \<in> set [AIC_ROLE_SYSTEM, AIC_ROLE_DEVELOPER]
        \<and> add_message tok rf c msg_role msg_text msg_type image_url sticky = (None, c2) \<longrightarrow>
        (\<exists>m rest. messages c2 = m # rest \<and> get_role m = msg_role \<and> is_sticky m = sticky))
   \<and> (msg_role \<in> set [AIC_ROLE_SYSTEM, AIC_ROLE_DEVELOPER]
        \<and> add_message_default tok rf c msg_role msg_text = (None, c3) \<longrightarrow>
        (\<exists>m rest. messages c3 = m # rest \<and> get_role m = msg_role \<and> \<not> is_sticky m))"
proof (intro conjI impI)
  show "\<exists>c0 m. AIConversation_init tok rf system_message max_memory = Inr c0 \<and> messages c0 = [m]
       \<and> get_role m = AIC_ROLE_SYSTEM \<and> get_type m = AIC_TYPE_TEXT \<and> is_sticky m"
    using AIConversation_init_messages [of tok rf system_message max_memory]
    by (auto simp: aic_consts)
next
  assume "change_system_message tok rf c new_system_message = (None, c1)"
  then show "\<exists>m rest. messages c1 = m # rest
           \<and> get_role m = AIC_ROLE_SYSTEM \<and> get_type m = AIC_TYPE_TEXT \<and> is_sticky m"
    by (rule change_system_message_messages)
next
  assume "msg_role \<in> set [AIC_ROLE_SYSTEM, AIC_ROLE_DEVELOPER]
        \<and> add_message tok rf c msg_role msg_text msg_type image_url sticky = (None, c2)"
  then show "\<exists>m rest. messages c2 = m # rest \<and> get_role m = msg_role \<and> is_sticky m = sticky"
    using add_message_system_messages by blast
next
  assume "msg_role \<in> set [AIC_ROLE_SYSTEM, AIC_ROLE_DEVELOPER]
        \<and> add_message_default tok rf c msg_role msg_text = (None, c3)"
  then have "\<exists>m rest. messages c3 = m # rest \<and> get_role m = msg_role \<and> is_sticky m = False"
    unfolding add_message_default_def using add_message_system_messages by blast
  then show "\<exists>m rest. messages c3 = m # rest \<and> get_role m = msg_role \<and> \<not> is_sticky m"
    by simp
qed

text \<open>
  The theorem at a conversation built with the system message "S": \<open>add_message\<close> with
  the defaults installs a system message that is not sticky, \<open>add_message\<close> with
  \<open>is_sticky = True\<close> one that is, and \<open>change_system_message\<close> a sticky one again.
\<close>

theorem system_message_sticky_flag_witness:
  "\<exists>c0 c1 c2 c3.
      AIConversation_init char_count no_files (Some ''S'') 2 = Inr c0
    \<and> is_sticky (hd (messages c0))
    \<and> add_message_default char_count no_files c0 ''system'' (Some ''T'') = (None, c3)
    \<and> get_role (hd (messages c3)) = ''system'' \<and> is_sticky (hd (messages c3)) = False
    \<and> add_message char_count no_files c0 ''developer'' (Some ''T'') ''text'' None True = (None, c2)
    \<and> get_role (hd (messages c2)) = ''developer'' \<and> is_sticky (hd (messages c2)) = True
    \<and> change_system_message char_count no_files c3 (Some ''U'') = (None, c1)
    \<and> get_role (hd (messages c1)) = ''system'' \<and> is_sticky (hd (messages c1))"
proof -
  note flag = system_message_sticky_flag
  from AIConversation_init_messages [of char_count no_files "Some ''S''" 2]
  obtain c0 m0 where c0: "AIConversation_init char_count no_files (Some ''S'') 2 = Inr c0"
    and m0: "messages c0 = [m0]" "is_sticky m0"
    by auto
  define c3 where "c3 = snd (add_message_default char_count no_files c0 ''system'' (Some ''T''))"
  have r3: "add_message_default char_count no_files c0 ''system'' (Some ''T'') = (None, c3)"
    using add_message_system_text_ok [of "''T''" "''system''" char_count no_files c0 False]
    by (simp add: c3_def add_message_default_def aic_consts prod_eq_iff)
  define c2 where
    "c2 = snd (add_message char_count no_files c0 ''developer'' (Some ''T'') ''text'' None True)"
  have r2: "add_message char_count no_files c0 ''developer'' (Some ''T'') ''text'' None True
              = (None, c2)"
    using add_message_system_text_ok [of "''T''" "''developer''" char_count no_files c0 True]
    by (simp add: c2_def prod_eq_iff)
  define c1 where "c1 = snd (change_system_message char_count no_files c3 (Some ''U''))"
  have r1: "change_system_message char_count no_files c3 (Some ''U'') = (None, c1)"
    using change_system_message_ok [of "''U''" char_count no_files c3]
    by (simp add: c1_def prod_eq_iff)
  have sys: "''system'' \<in> set [AIC_ROLE_SYSTEM, AIC_ROLE_DEVELOPER]"
    and dev: "''developer'' \<in> set [AIC_ROLE_SYSTEM, AIC_ROLE_DEVELOPER]"
    by (simp_all add: aic_consts)
  from flag [of char_count no_files None 2 c0 None c0 "''system''" "Some ''T''"
      "''text''" None False c0 c3]
  have "''system'' \<in> set [AIC_ROLE_SYSTEM, AIC_ROLE_DEVELOPER]
        \<and> add_message_default char_count no_files c0 ''system'' (Some ''T'') = (None, c3) \<longrightarrow>
        (\<exists>m rest. messages c3 = m # rest \<and> get_role m = ''system'' \<and> \<not> is_sticky m)"
    by (elim conjE)
  with sys r3
  have h3: "get_role (hd (messages c3)) = ''system'' \<and> is_sticky (hd (messages c3)) = False"
    by auto
  from flag [of char_count no_files None 2 c0 None c0 "''developer''" "Some ''T''"
      "''text''" None True c2 c0]
  have "''developer'' \<in> set [AIC_ROLE_SYSTEM, AIC_ROLE_DEVELOPER]
        \<and> add_message char_count no_files c0 ''developer'' (Some ''T'') ''text'' None True
            = (None, c2) \<longrightarrow>
        (\<exists>m rest. messages c2 = m # rest \<and> get_role m = ''developer'' \<and> is_sticky m = True)"
    by (elim conjE)
  with dev r2
  have h2: "get_role (hd (messages c2)) = ''developer'' \<and> is_sticky (hd (messages c2)) = True"
    by auto
  from flag [of char_count no_files None 2 c3 "Some ''U''" c1 "''system''" None
      "''text''" None False c0 c0]
  have "change_system_message char_count no_files c3 (Some ''U'') = (None, c1) \<longrightarrow>
        (\<exists>m rest. messages c1 = m # rest
           \<and> get_role m = AIC_ROLE_SYSTEM \<and> get_type m = AIC_TYPE_TEXT \<and> is_sticky m)"
    by (elim conjE)
  with r1
  have h1: "get_role (hd (messages c1)) = ''system'' \<and> is_sticky (hd (messages c1))"
    by (auto simp: aic_consts)
  from c0 m0 r3 h3 r2 h2 r1 h1 show ?thesis by auto
qed


end
